theory Spec2Isabelle
  imports Complex_Main "HOL-Library.Sublist"
begin

section \<open>JavaScript values used by the dashboard\<close>

text \<open>
  The embedding follows \<^verbatim>\<open>src/components/DecisionDashboard/DecisionDashboard.tsx\<close>.
  Strings are byte lists; only the ASCII letters have a lower-case form here, which is
  all that the texts compared in the source (\<^verbatim>\<open>'stay'\<close>, \<^verbatim>\<open>'current'\<close>, the keyword
  list) consist of. A value that may be \<^verbatim>\<open>undefined\<close> is an \<open>option\<close>.
\<close>

definition dq :: string where
  "dq = [CHR 0x22]"

definition nl :: string where
  "nl = [CHR 0x0A]"

text \<open>\<^verbatim>\<open>String.prototype.toLowerCase\<close> on ASCII text.\<close>

definition lower_char :: "char \<Rightarrow> char" where
  "lower_char c =
     (let n = (of_char c :: nat) in if 65 \<le> n \<and> n \<le> 90 then char_of (n + 32) else c)"

definition toLowerCase :: "string \<Rightarrow> string" where
  "toLowerCase s = map lower_char s"

text \<open>\<^verbatim>\<open>String.prototype.includes\<close>: a scan for the first position where the pattern starts.\<close>

fun js_includes :: "string \<Rightarrow> string \<Rightarrow> bool" where
  "js_includes [] p = (p = [])"
| "js_includes (c # cs) p = (prefix p (c # cs) \<or> js_includes cs p)"

text \<open>Truthiness of a string (\<^verbatim>\<open>''\<close> is falsy) and of a string that may be undefined.\<close>

definition truthy :: "string \<Rightarrow> bool" where
  "truthy s = (s \<noteq> [])"

definition truthy_opt :: "string option \<Rightarrow> bool" where
  "truthy_opt v = (case v of None \<Rightarrow> False | Some s \<Rightarrow> truthy s)"

text \<open>\<^verbatim>\<open>v || d\<close> for a number that may be undefined: \<^verbatim>\<open>undefined\<close> and \<^verbatim>\<open>0\<close> are both falsy.\<close>

definition js_or_default :: "int option \<Rightarrow> int \<Rightarrow> int" where
  "js_or_default v d = (case v of None \<Rightarrow> d | Some n \<Rightarrow> if n = 0 then d else n)"

text \<open>\<^verbatim>\<open>xs[i]\<close>: reading outside the array gives \<^verbatim>\<open>undefined\<close>.\<close>

definition js_index :: "'a list \<Rightarrow> int \<Rightarrow> 'a option" where
  "js_index xs i = (if 0 \<le> i \<and> i < int (length xs) then Some (xs ! nat i) else None)"

text \<open>A template literal prints an undefined value as the word \<^verbatim>\<open>undefined\<close>.\<close>

definition template_string :: "string option \<Rightarrow> string" where
  "template_string v = (case v of None \<Rightarrow> ''undefined'' | Some s \<Rightarrow> s)"

text \<open>
  Printing a number in a template literal. The two sliders are MUI sliders with the
  default range 0..100 and step 1, so the scores are integers, printed in decimal.
\<close>

fun nat_to_string :: "nat \<Rightarrow> string" where
  "nat_to_string n =
     (if n < 10 then [char_of (48 + n)]
      else nat_to_string (n div 10) @ [char_of (48 + n mod 10)])"

declare nat_to_string.simps [simp del]

definition number_to_string :: "int \<Rightarrow> string" where
  "number_to_string i =
     (if i < 0 then ''-'' @ nat_to_string (nat (- i)) else nat_to_string (nat i))"

section \<open>Data model\<close>

text \<open>
  \<^verbatim>\<open>Partial<Decision>\<close>: of the fields of \<^verbatim>\<open>Decision\<close> the component only ever stores
  these three; each may be undefined as far as the type goes.
\<close>

record Decision =
  question :: "string option"
  balanceScore :: "int option"
  timeHorizon :: "int option"

text \<open>
  The fields \<^verbatim>\<open>name\<close>, \<^verbatim>\<open>score\<close>, \<^verbatim>\<open>x\<close> and \<^verbatim>\<open>y\<close> of the source carry a prefix here,
  since a record field is a constant and these names are wanted for variables.
\<close>

record Factor =
  factor_name :: string
  factor_score :: int
  valueAlignment :: "string option"

record Sentiment =
  positive :: real
  negative :: real
  neutral :: real
  tone :: string

record BiasDetection =
  biasType :: string
  description :: string
  suggestion :: string

record OptionPosition =
  pos_x :: real
  pos_y :: real

record Analysis =
  recommendation :: string
  factors :: "Factor list"
  sentiment :: Sentiment
  detectedBiases :: "BiasDetection list"
  valueConflicts :: "string list"
  optionPositions :: "string \<rightharpoonup> OptionPosition"
  thirdOption :: "string option"

definition HARMFUL_KEYWORDS :: "string list" where
  "HARMFUL_KEYWORDS =
     [''kill'', ''suicide'', ''murder'', ''hurt'', ''harm'', ''die'', ''death'', ''violent'',
      ''weapon'', ''gun'', ''bomb'', ''attack'', ''destroy'', ''revenge'', ''illegal'', ''crime'']"

definition COGNITIVE_BIASES :: "BiasDetection list" where
  "COGNITIVE_BIASES =
     [\<lparr>biasType = ''Loss Aversion'',
       description = ''The tendency to prefer avoiding losses over acquiring equivalent gains.'',
       suggestion = ''Try to evaluate potential gains with the same weight as potential losses.''\<rparr>,
      \<lparr>biasType = ''Confirmation Bias'',
       description = ''The tendency to search for or interpret information in a way that confirms one's preconceptions.'',
       suggestion = ''Actively seek out information that challenges your initial assumptions.''\<rparr>,
      \<lparr>biasType = ''Recency Bias'',
       description = ''The tendency to weigh recent events more heavily than earlier events.'',
       suggestion = ''Consider the full history and pattern of outcomes, not just recent experiences.''\<rparr>,
      \<lparr>biasType = ''Status Quo Bias'',
       description = ''The preference for the current state of affairs, leading to resistance to change.'',
       suggestion = ''Evaluate the status quo option as critically as you would any new option.''\<rparr>,
      \<lparr>biasType = ''Emotional Reasoning'',
       description = ''Making decisions based on how you feel rather than objective evidence.'',
       suggestion = ''Acknowledge your emotions, but also look for concrete facts to support your decision.''\<rparr>]"

section \<open>The analysis generator\<close>

text \<open>
  The body of \<^verbatim>\<open>handleSubmit\<close> after its delay. \<^verbatim>\<open>Math.random()\<close> is the sequence
  \<open>rnd\<close>: \<open>rnd k\<close> is the value of the \<open>k\<close>-th call made during one submission, a number
  in \<open>[0, 1)\<close>. Arithmetic on the draws is exact (rounding of doubles is not modelled).
\<close>

type_synonym rng = "nat \<Rightarrow> real"

definition draws_ok :: "rng \<Rightarrow> bool" where
  "draws_ok rnd = (\<forall>k. 0 \<le> rnd k \<and> rnd k < 1)"

text \<open>
  The recommendation text, lines 269 to 304. \<open>bs\<close> and \<open>th\<close> are the locals
  \<^verbatim>\<open>balanceScore\<close> and \<^verbatim>\<open>timeHorizon\<close>; \<open>r\<close> is the draw that picks a value on the logical
  branch. Picking outside \<^verbatim>\<open>selectedValues\<close> gives \<^verbatim>\<open>undefined\<close>, whose \<^verbatim>\<open>toLowerCase\<close>
  throws: the result is then \<open>None\<close>.
\<close>

definition intuition_paragraph :: "string \<Rightarrow> int \<Rightarrow> string" where
  "intuition_paragraph intuition th =
     nl @ nl @ ''Your initial intuition was: '' @ dq @ intuition @ dq @ ''. '' @
     (if th > 50
      then ''You're focusing on long-term outcomes, which is often beneficial for major life decisions.''
      else ''You're focusing more on short-term outcomes. Consider if this aligns with the importance of this decision.'')"

definition recommendation_text ::
  "string option \<Rightarrow> int \<Rightarrow> int \<Rightarrow> string list \<Rightarrow> string \<Rightarrow> string list \<Rightarrow> string \<Rightarrow> real
     \<Rightarrow> string option" where
  "recommendation_text q bs th opts stk vals intuition r =
     (let both = (truthy_opt (js_index opts 0) \<and> truthy_opt (js_index opts 1));
          o0 = template_string (js_index opts 0);
          o1 = template_string (js_index opts 1)
      in if bs > 50 then
           (case (if length vals > 0
                  then map_option
                         (\<lambda>emotionalValue.
                            ''While your logical analysis is sound, consider how this decision aligns with your value of ''
                            @ toLowerCase emotionalValue @ ''. '')
                         (js_index vals \<lfloor>r * real (length vals)\<rfloor>)
                  else Some [])
            of None \<Rightarrow> None
             | Some valueSentence \<Rightarrow>
                 Some (''Your approach to '' @ dq @ template_string q @ dq
                       @ '' is primarily logical ('' @ number_to_string bs @ ''% logical). ''
                       @ valueSentence
                       @ (if both
                          then ''Between '' @ o0 @ '' and '' @ o1
                               @ '', which option better serves your emotional well-being in the long run?''
                          else ''Remember that even the most logical decisions should account for emotional impact.'')
                       @ intuition_paragraph intuition th))
         else
           Some (''Your approach to '' @ dq @ template_string q @ dq
                 @ '' is primarily emotional ('' @ number_to_string (100 - bs) @ ''% emotional). ''
                 @ (if truthy stk
                    then ''Given what's at stake ('' @ stk
                         @ ''), it may be helpful to balance your emotional intuition with some logical analysis. ''
                    else [])
                 @ (if both
                    then ''Try creating a pros and cons list for '' @ o0 @ '' vs '' @ o1
                         @ '' to ensure you're not overlooking important practical factors.''
                    else ''Consider writing down the practical pros and cons to complement your emotional intuition.'')
                 @ intuition_paragraph intuition th))"

text \<open>Value-based factors, lines 310 to 318: one draw per selected value, from index \<open>k\<close> on.\<close>

fun value_factors :: "string list \<Rightarrow> rng \<Rightarrow> nat \<Rightarrow> Factor list" where
  "value_factors [] rnd k = []"
| "value_factors (v # vs) rnd k =
     \<lparr>factor_name = v @ '' alignment'', factor_score = \<lfloor>rnd k * 40\<rfloor> + 60,
      valueAlignment = Some v\<rparr> # value_factors vs rnd (Suc k)"

text \<open>Bias detection, lines 335 to 350.\<close>

definition detect_biases :: "int \<Rightarrow> int \<Rightarrow> int \<Rightarrow> string list \<Rightarrow> BiasDetection list" where
  "detect_biases financialImpact emotionalWellbeing bs opts =
     (if financialImpact > 70 \<and> bs < 40 then [COGNITIVE_BIASES ! 0] else [])
     @ (if bs < 30 \<and> emotionalWellbeing > 80 then [COGNITIVE_BIASES ! 4] else [])
     @ (if (case js_index opts 0 of None \<Rightarrow> False | Some o0 \<Rightarrow> js_includes (toLowerCase o0) ''stay'')
           \<or> (case js_index opts 0 of None \<Rightarrow> False | Some o0 \<Rightarrow> js_includes (toLowerCase o0) ''current'')
        then [COGNITIVE_BIASES ! 3] else [])"

text \<open>
  Sentiment tone, lines 353 to 364. The three labels start with an emoji, written as its
  UTF-8 bytes.
\<close>

definition sentiment_tone :: "real \<Rightarrow> real \<Rightarrow> string" where
  "sentiment_tone pos neg =
     (if pos > 0.6 then [CHR 0xF0, CHR 0x9F, CHR 0x8C, CHR 0xB1] @ '' Growth-Oriented Language''
      else if neg > 0.2 then [CHR 0xF0, CHR 0x9F, CHR 0x94, CHR 0xA5] @ '' High Tension Detected''
      else [CHR 0xF0, CHR 0x9F, CHR 0x8C, CHR 0xA4, CHR 0xEF, CHR 0xB8, CHR 0x8F]
           @ '' Mostly Neutral with Slight Positivity'')"

text \<open>
  \<^verbatim>\<open>generatePosition\<close>, lines 370 to 398. \<open>r1\<close> and \<open>r2\<close> are its two draws, for \<open>x\<close> and
  then for \<open>y\<close> (each branch of a conditional calls \<^verbatim>\<open>Math.random\<close> once).
\<close>

definition generatePosition :: "real \<Rightarrow> real \<Rightarrow> bool \<Rightarrow> real \<Rightarrow> real \<Rightarrow> OptionPosition" where
  "generatePosition baseX baseY isSecondOption r1 r2 =
     (let xVariance = (if isSecondOption then 40 else 20);
          yVariance = (if isSecondOption then 40 else 20)
      in if isSecondOption then
           (let firstQuadrantX = (baseX > 50);
                firstQuadrantY = (baseY > 50)
            in \<lparr>pos_x = (if firstQuadrantX then max 10 (min 45 (30 + r1 * 15))
                         else max 55 (min 90 (70 + r1 * 15))),
                pos_y = (if firstQuadrantY then max 10 (min 45 (30 + r2 * 15))
                         else max 55 (min 90 (70 + r2 * 15)))\<rparr>)
         else
           \<lparr>pos_x = max 15 (min 85 (baseX + (r1 * xVariance - xVariance / 2))),
            pos_y = max 15 (min 85 (baseY + (r2 * yVariance - yVariance / 2)))\<rparr>)"

text \<open>
  Option positions, lines 367 and 400 to 409. \<^verbatim>\<open>optionPositions\<close> is an object used as a
  dictionary from option text to position, modelled as a map (the key \<^verbatim>\<open>__proto__\<close>,
  which a JavaScript object treats specially, is outside the model). The position of
  the first option is drawn at \<open>k\<close>, \<open>k + 1\<close>; the second option reads the stored position
  of the first before it writes its own, at the next two draws.
\<close>

definition first_position :: "int \<Rightarrow> int \<Rightarrow> rng \<Rightarrow> nat \<Rightarrow> OptionPosition" where
  "first_position bs th rnd k = generatePosition (real_of_int bs) (real_of_int th) False (rnd k) (rnd (k + 1))"

definition second_position :: "int \<Rightarrow> int \<Rightarrow> string list \<Rightarrow> rng \<Rightarrow> nat \<Rightarrow> OptionPosition" where
  "second_position bs th opts rnd k =
     (if truthy_opt (js_index opts 0)
      then generatePosition (pos_x (first_position bs th rnd k)) (pos_y (first_position bs th rnd k))
             True (rnd (k + 2)) (rnd (k + 3))
      else generatePosition 50 50 True (rnd k) (rnd (k + 1)))"

definition option_positions :: "int \<Rightarrow> int \<Rightarrow> string list \<Rightarrow> rng \<Rightarrow> nat \<Rightarrow> (string \<rightharpoonup> OptionPosition)" where
  "option_positions bs th opts rnd k =
     (let m0 = (if truthy_opt (js_index opts 0)
                then Map.empty(template_string (js_index opts 0) \<mapsto> first_position bs th rnd k)
                else Map.empty)
      in if truthy_opt (js_index opts 1)
         then m0(template_string (js_index opts 1) \<mapsto> second_position bs th opts rnd k)
         else m0)"

text \<open>
  The whole result, in the order of the source, which fixes the index of every draw:
  one for the value pick (logical branch with values), one per value factor, three for
  the standard factors, one for the stakes factor, three for the sentiment, two per
  present option, one for the value conflict, one for the third option.
\<close>

definition mockAnalysis ::
  "Decision \<Rightarrow> string list \<Rightarrow> string \<Rightarrow> string list \<Rightarrow> string \<Rightarrow> rng \<Rightarrow> Analysis option" where
  "mockAnalysis d opts stk vals intuition rnd =
     (let bs = js_or_default (balanceScore d) 50;
          th = js_or_default (timeHorizon d) 50;
          both = (truthy_opt (js_index opts 0) \<and> truthy_opt (js_index opts 1));
          k1 = (if bs > 50 \<and> length vals > 0 then 1 else 0);
          k2 = k1 + length vals;
          financialImpact = \<lfloor>rnd k2 * 100\<rfloor>;
          emotionalWellbeing = \<lfloor>rnd (k2 + 1) * 100\<rfloor>;
          longTermConsequences = \<lfloor>rnd (k2 + 2) * 100\<rfloor>;
          k3 = k2 + 3;
          k4 = k3 + (if truthy stk then 1 else 0);
          pos = rnd k4 * 0.7 + 0.3;
          neg = rnd (k4 + 1) * 0.3;
          neu = rnd (k4 + 2) * 0.2;
          k5 = k4 + 3;
          k6 = k5 + (if truthy_opt (js_index opts 0) then 2 else 0)
                  + (if truthy_opt (js_index opts 1) then 2 else 0);
          k7 = k6 + (if length vals \<ge> 2 then 1 else 0)
      in case recommendation_text (question d) bs th opts stk vals intuition (rnd 0) of
           None \<Rightarrow> None
         | Some text \<Rightarrow>
             Some \<lparr>recommendation = text,
                   factors =
                     value_factors vals rnd k1
                     @ [\<lparr>factor_name = ''Financial impact'', factor_score = financialImpact,
                         valueAlignment = None\<rparr>,
                        \<lparr>factor_name = ''Emotional well-being'', factor_score = emotionalWellbeing,
                         valueAlignment = None\<rparr>,
                        \<lparr>factor_name = ''Long-term consequences'', factor_score = longTermConsequences,
                         valueAlignment = None\<rparr>]
                     @ (if truthy stk
                        then [\<lparr>factor_name = ''Impact on '' @ stk, factor_score = \<lfloor>rnd k3 * 100\<rfloor>,
                               valueAlignment = None\<rparr>]
                        else []),
                   sentiment = \<lparr>positive = pos, negative = neg, neutral = neu,
                                tone = sentiment_tone pos neg\<rparr>,
                   detectedBiases = detect_biases financialImpact emotionalWellbeing bs opts,
                   valueConflicts =
                     (if length vals \<ge> 2 \<and> rnd k6 > 0.5
                      then [''Your values of '' @ vals ! 0 @ '' and '' @ vals ! 1
                            @ '' may be in tension for this decision.'']
                      else []),
                   optionPositions = option_positions bs th opts rnd k5,
                   thirdOption =
                     (if both \<and> rnd k7 > 0.7
                      then Some (''Have you considered a hybrid approach? Perhaps you could ''
                                 @ toLowerCase (template_string (js_index opts 0))
                                 @ '' for a trial period before fully committing to ''
                                 @ toLowerCase (template_string (js_index opts 1)) @ ''.'')
                      else None)\<rparr>)"

section \<open>The step-wizard controller\<close>

datatype step = QuestionStep | IntuitionStep | ContextStep | AnalysisStep | ConfidenceStep

text \<open>The \<^verbatim>\<open>useState\<close> cells of the component, lines 111 to 141.\<close>

record state =
  decision :: Decision
  options :: "string list"
  stakes :: string
  selectedValues :: "string list"
  initialIntuition :: string
  confidenceScore :: int
  loading :: bool
  submitted :: bool
  analysis :: "Analysis option"
  error :: "string option"
  currentStep :: step
  showSafetyDialog :: bool
  safetyMessage :: string
  showBiasInfo :: "string option"
  showThirdOption :: bool
  showTimeCapsule :: bool
  timeCapsuleScheduled :: bool
  journalSaved :: bool
  showJournalDialog :: bool

definition initial_state :: state where
  "initial_state =
     \<lparr>decision = \<lparr>question = Some [], balanceScore = Some 50, timeHorizon = Some 50\<rparr>,
      options = [[], []], stakes = [], selectedValues = [], initialIntuition = [],
      confidenceScore = 70, loading = False, submitted = False, analysis = None,
      error = None, currentStep = QuestionStep, showSafetyDialog = False, safetyMessage = [],
      showBiasInfo = None, showThirdOption = False, showTimeCapsule = False,
      timeCapsuleScheduled = False, journalSaved = False, showJournalDialog = False\<rparr>"

subsection \<open>Field edits\<close>

definition SAFETY_MESSAGE :: string where
  "SAFETY_MESSAGE =
     ''It seems like your question might be about a concerning topic. ''
     @ ''If you're feeling overwhelmed or having harmful thoughts, ''
     @ ''please consider reaching out to a mental health professional or a trusted person in your life. ''
     @ ''You can also call or text a crisis helpline for immediate support.''"

text \<open>\<^verbatim>\<open>handleQuestionChange\<close>, lines 143 to 171, in the order of its three parts.\<close>

definition safety_check :: "string \<Rightarrow> state \<Rightarrow> state" where
  "safety_check q s =
     (case find (\<lambda>word. js_includes (toLowerCase q) word) HARMFUL_KEYWORDS of
        None \<Rightarrow> s
      | Some foundHarmfulWord \<Rightarrow>
          if truthy foundHarmfulWord
          then s\<lparr>safetyMessage := SAFETY_MESSAGE, showSafetyDialog := True\<rparr>
          else s)"

definition handleQuestionChange :: "string \<Rightarrow> state \<Rightarrow> state" where
  "handleQuestionChange q s =
     (let s1 = safety_check q s;
          s2 = s1\<lparr>decision := (decision s1)\<lparr>question := Some q\<rparr>\<rparr>
      in if submitted s
         then s2\<lparr>submitted := False, analysis := None, currentStep := QuestionStep\<rparr>
         else s2)"

definition handleBalanceChange :: "int \<Rightarrow> state \<Rightarrow> state" where
  "handleBalanceChange newValue s = s\<lparr>decision := (decision s)\<lparr>balanceScore := Some newValue\<rparr>\<rparr>"

definition handleTimeHorizonChange :: "int \<Rightarrow> state \<Rightarrow> state" where
  "handleTimeHorizonChange newValue s = s\<lparr>decision := (decision s)\<lparr>timeHorizon := Some newValue\<rparr>\<rparr>"

definition handleInitialIntuitionChange :: "string \<Rightarrow> state \<Rightarrow> state" where
  "handleInitialIntuitionChange v s = s\<lparr>initialIntuition := v\<rparr>"

definition handleConfidenceChange :: "int \<Rightarrow> state \<Rightarrow> state" where
  "handleConfidenceChange newValue s = s\<lparr>confidenceScore := newValue\<rparr>"

text \<open>
  \<^verbatim>\<open>handleOptionChange\<close>, lines 204 to 208. Its two call sites pass the indices 0 and 1,
  and \<^verbatim>\<open>options\<close> always has two elements (see \<open>options_length\<close> below), so the write
  is in range and never grows the array.
\<close>

definition handleOptionChange :: "nat \<Rightarrow> string \<Rightarrow> state \<Rightarrow> state" where
  "handleOptionChange index v s = s\<lparr>options := (options s)[index := v]\<rparr>"

definition handleStakesChange :: "string \<Rightarrow> state \<Rightarrow> state" where
  "handleStakesChange v s = s\<lparr>stakes := v\<rparr>"

definition handleValueChange :: "string list \<Rightarrow> state \<Rightarrow> state" where
  "handleValueChange vs s = s\<lparr>selectedValues := vs\<rparr>"

subsection \<open>Navigation\<close>

text \<open>
  \<^verbatim>\<open>handleSubmit\<close>, lines 253 to 453, taken at the point where its promise has settled.
  While it is pending \<^verbatim>\<open>loading\<close> is set and every control of the context step is
  disabled, so no other handler runs in between and the values the closure captured are
  those of the state. An exception in the body is caught and becomes the generic message.
\<close>

definition handleSubmit :: "rng \<Rightarrow> state \<Rightarrow> state" where
  "handleSubmit rnd s =
     (case mockAnalysis (decision s) (options s) (stakes s) (selectedValues s)
             (initialIntuition s) rnd of
        Some a \<Rightarrow>
          s\<lparr>error := None, analysis := Some a, submitted := True, currentStep := AnalysisStep,
            loading := False\<rparr>
      | None \<Rightarrow>
          s\<lparr>error := Some ''An error occurred while analyzing your decision. Please try again.'',
            loading := False\<rparr>)"

text \<open>\<^verbatim>\<open>handleContinue\<close>, lines 218 to 241. A falsy question is an undefined or empty one.\<close>

definition handleContinue :: "rng \<Rightarrow> state \<Rightarrow> state" where
  "handleContinue rnd s =
     (if currentStep s = QuestionStep then
        (if truthy_opt (question (decision s))
         then s\<lparr>error := None, currentStep := IntuitionStep\<rparr>
         else s\<lparr>error := Some ''Please enter a decision question''\<rparr>)
      else if currentStep s = IntuitionStep then
        (if truthy (initialIntuition s)
         then s\<lparr>error := None, currentStep := ContextStep\<rparr>
         else s\<lparr>error := Some ''Please share your initial intuition''\<rparr>)
      else if currentStep s = ContextStep then
        (if js_index (options s) 0 = Some [] \<and> js_index (options s) 1 = Some []
         then s\<lparr>error := Some ''Please enter at least one option you are considering''\<rparr>
         else handleSubmit rnd (s\<lparr>error := None\<rparr>))
      else s)"

text \<open>\<^verbatim>\<open>handleBack\<close>, lines 243 to 251.\<close>

definition handleBack :: "state \<Rightarrow> state" where
  "handleBack s =
     (if currentStep s = IntuitionStep then s\<lparr>currentStep := QuestionStep\<rparr>
      else if currentStep s = ContextStep then s\<lparr>currentStep := IntuitionStep\<rparr>
      else if currentStep s = AnalysisStep then s\<lparr>currentStep := ContextStep\<rparr>
      else s)"

text \<open>The handler of the button \<^verbatim>\<open>Start New Decision\<close>, lines 1166 to 1187.\<close>

definition startNew :: "state \<Rightarrow> state" where
  "startNew s =
     s\<lparr>submitted := False, analysis := None, currentStep := QuestionStep,
       decision := \<lparr>question = Some [], balanceScore = Some 50, timeHorizon = Some 50\<rparr>,
       options := [[], []], stakes := [], selectedValues := [], initialIntuition := [],
       confidenceScore := 70,
       showBiasInfo := None, showThirdOption := False, timeCapsuleScheduled := False,
       journalSaved := False\<rparr>"

subsection \<open>Events\<close>

text \<open>
  What the view can send to the controller: the field edits, the three navigation
  buttons (the forward one carrying the draws its submission would consume), and the
  toggles of the secondary panels and dialogs, each with the state change its inline
  handler makes.
\<close>

datatype event =
    QuestionChange string
  | BalanceChange int
  | TimeHorizonChange int
  | InitialIntuitionChange string
  | ConfidenceChange int
  | OptionAChange string
  | OptionBChange string
  | StakesChange string
  | ValueChange "string list"
  | Continue rng
  | Back
  | StartNew
  | ViewBiasInfo "string option"
  | RevealThirdOption
  | CloseSafetyDialog
  | OpenTimeCapsule
  | CloseTimeCapsule
  | ScheduleTimeCapsule
  | OpenJournalDialog
  | CloseJournalDialog
  | SaveJournal

fun apply_event :: "event \<Rightarrow> state \<Rightarrow> state" where
  "apply_event (QuestionChange q) s = handleQuestionChange q s"
| "apply_event (BalanceChange n) s = handleBalanceChange n s"
| "apply_event (TimeHorizonChange n) s = handleTimeHorizonChange n s"
| "apply_event (InitialIntuitionChange v) s = handleInitialIntuitionChange v s"
| "apply_event (ConfidenceChange n) s = handleConfidenceChange n s"
| "apply_event (OptionAChange v) s = handleOptionChange 0 v s"
| "apply_event (OptionBChange v) s = handleOptionChange 1 v s"
| "apply_event (StakesChange v) s = handleStakesChange v s"
| "apply_event (ValueChange vs) s = handleValueChange vs s"
| "apply_event (Continue rnd) s = handleContinue rnd s"
| "apply_event Back s = handleBack s"
| "apply_event StartNew s = startNew s"
| "apply_event (ViewBiasInfo b) s = s\<lparr>showBiasInfo := b\<rparr>"
| "apply_event RevealThirdOption s = s\<lparr>showThirdOption := True\<rparr>"
| "apply_event CloseSafetyDialog s = s\<lparr>showSafetyDialog := False\<rparr>"
| "apply_event OpenTimeCapsule s = s\<lparr>showTimeCapsule := True\<rparr>"
| "apply_event CloseTimeCapsule s = s\<lparr>showTimeCapsule := False\<rparr>"
| "apply_event ScheduleTimeCapsule s = s\<lparr>timeCapsuleScheduled := True, showTimeCapsule := False\<rparr>"
| "apply_event OpenJournalDialog s = s\<lparr>showJournalDialog := True\<rparr>"
| "apply_event CloseJournalDialog s = s\<lparr>showJournalDialog := False\<rparr>"
| "apply_event SaveJournal s = s\<lparr>journalSaved := True, showJournalDialog := False\<rparr>"

text \<open>The state after a sequence of events, the first of the list first.\<close>

fun run :: "event list \<Rightarrow> state \<Rightarrow> state" where
  "run [] s = s"
| "run (e # es) s = run es (apply_event e s)"

section \<open>Concrete sessions\<close>

text \<open>Two sequences of draws: every call of \<^verbatim>\<open>Math.random()\<close> returns 0.5, or 0.8.\<close>

definition half_draws :: rng where
  "half_draws = (\<lambda>k. 1 / 2)"

definition high_draws :: rng where
  "high_draws = (\<lambda>k. 4 / 5)"

text \<open>A session that fills in the question and the intuition and stops at the context step.\<close>

definition events_to_context :: "event list" where
  "events_to_context =
     [QuestionChange ''Should I move cities?'', Continue half_draws,
      InitialIntuitionChange ''Go'', Continue half_draws]"

text \<open>The same session carried on to an analysis of two options.\<close>

definition events_to_analysis :: "event list" where
  "events_to_analysis =
     events_to_context
     @ [OptionAChange ''Move'', OptionBChange ''Stay current job'', Continue half_draws]"

text \<open>
  A session with the balance slider moved to 0 (fully emotional) and the time horizon
  to 30, one option entered, and the analysis requested with the draws \<open>rnd\<close>.
\<close>

definition zero_balance_events :: "rng \<Rightarrow> event list" where
  "zero_balance_events rnd =
     [QuestionChange ''Should I move cities?'', BalanceChange 0, TimeHorizonChange 30,
      Continue rnd, InitialIntuitionChange ''Go'', Continue rnd,
      OptionAChange ''Move'', Continue rnd]"

text \<open>
  Sessions that end in a state carrying a validation error, with the field that was
  missing filled in afterwards: at the intuition step and at the context step.
\<close>

definition events_to_intuition_error :: "event list" where
  "events_to_intuition_error =
     [QuestionChange ''Should I move cities?'', Continue half_draws, Continue half_draws,
      InitialIntuitionChange ''Go'']"

definition events_to_context_error :: "event list" where
  "events_to_context_error =
     events_to_context @ [Continue half_draws, OptionAChange ''Move'']"

text \<open>The scenario of the specification: balance 80, time horizon 30.\<close>

definition scenario_decision :: Decision where
  "scenario_decision =
     \<lparr>question = Some ''Should I move cities?'', balanceScore = Some 80, timeHorizon = Some 30\<rparr>"

text \<open>The score of the financial-impact factor of an analysis, found by its name.\<close>

definition financial_score :: "Analysis \<Rightarrow> int option" where
  "financial_score a =
     map_option factor_score (find (\<lambda>f. factor_name f = ''Financial impact'') (factors a))"

text \<open>What an invalidation touches: the submitted flag, the stored analysis, the step.\<close>

definition analysis_status :: "state \<Rightarrow> bool \<times> Analysis option \<times> step" where
  "analysis_status s = (submitted s, analysis s, currentStep s)"

text \<open>
  A coordinate \<open>v\<close> is a jitter of at most 10 around \<open>base\<close>, clamped to \<open>[15, 85]\<close>, when
  it lies between the clamped ends of the window.
\<close>

definition within_jitter :: "real \<Rightarrow> real \<Rightarrow> bool" where
  "within_jitter base v =
     (max 15 (min 85 (base - 10)) \<le> v \<and> v \<le> max 15 (min 85 (base + 10)))"

section \<open>The generator always returns\<close>

text \<open>
  With draws in \<open>[0, 1)\<close> the value pick stays inside \<^verbatim>\<open>selectedValues\<close>, so nothing is
  thrown and the submission ends with an analysis.
\<close>

lemma half_draws_ok: "draws_ok half_draws"
  by (simp add: draws_ok_def half_draws_def)

lemma high_draws_ok: "draws_ok high_draws"
  by (simp add: draws_ok_def high_draws_def)

lemma recommendation_text_total:
  assumes "0 \<le> r" "r < 1"
  shows "\<exists>t. recommendation_text q bs th opts stk vals intuition r = Some t"
proof (cases "bs > 50 \<and> length vals > 0")
  case True
  then have pos: "0 < real (length vals)" by simp
  have lo: "0 \<le> \<lfloor>r * real (length vals)\<rfloor>" using assms pos by simp
  have "r * real (length vals) < real (length vals)" using assms pos by simp
  then have hi: "\<lfloor>r * real (length vals)\<rfloor> < int (length vals)"
    by (simp add: floor_less_iff)
  from lo hi True show ?thesis
    by (simp add: recommendation_text_def js_index_def Let_def)
next
  case False
  then show ?thesis by (auto simp add: recommendation_text_def Let_def)
qed

lemma mockAnalysis_total:
  assumes "draws_ok rnd"
  shows "\<exists>a. mockAnalysis d opts stk vals intuition rnd = Some a"
proof -
  from assms have "0 \<le> rnd 0" "rnd 0 < 1" by (simp_all add: draws_ok_def)
  from recommendation_text_total [OF this]
  obtain t where "recommendation_text (question d) (js_or_default (balanceScore d) 50)
      (js_or_default (timeHorizon d) 50) opts stk vals intuition (rnd 0) = Some t"
    by blast
  then show ?thesis by (simp add: mockAnalysis_def Let_def)
qed

lemma handleSubmit_settled:
  assumes "draws_ok rnd"
  shows "error (handleSubmit rnd s) = None \<and> analysis (handleSubmit rnd s) \<noteq> None
         \<and> submitted (handleSubmit rnd s) \<and> currentStep (handleSubmit rnd s) = AnalysisStep"
proof -
  from mockAnalysis_total [OF assms]
  obtain a where "mockAnalysis (decision s) (options s) (stakes s) (selectedValues s)
      (initialIntuition s) rnd = Some a"
    by blast
  then show ?thesis by (simp add: handleSubmit_def)
qed

lemma handleSubmit_step: "currentStep (handleSubmit rnd s) = AnalysisStep \<or> currentStep (handleSubmit rnd s) = currentStep s"
  by (simp add: handleSubmit_def split: option.splits)

section \<open>Forward navigation\<close>

text \<open>
  C3. From the question step, \<^verbatim>\<open>handleContinue\<close> with an empty (or undefined) question
  sets the error to "Please enter a decision question" and stays; with a non-empty
  question it clears the error and moves to the intuition step. From the context step
  with both options empty it sets "Please enter at least one option you are considering"
  and stays; with at least one option non-empty (and draws of \<^verbatim>\<open>Math.random\<close> in
  \<open>[0, 1)\<close>) it clears the error, stores an analysis, sets the submitted flag and moves
  to the analysis step.
\<close>

theorem handleContinue_validation:
  "(currentStep s = QuestionStep \<and> question (decision s) \<in> {None, Some []} \<longrightarrow>
      error (handleContinue rnd s) = Some ''Please enter a decision question''
      \<and> currentStep (handleContinue rnd s) = QuestionStep)
   \<and> (currentStep s = QuestionStep \<and> question (decision s) \<notin> {None, Some []} \<longrightarrow>
      error (handleContinue rnd s) = None \<and> currentStep (handleContinue rnd s) = IntuitionStep)
   \<and> (currentStep s = ContextStep \<and> options s = [[], []] \<longrightarrow>
      error (handleContinue rnd s) = Some ''Please enter at least one option you are considering''
      \<and> currentStep (handleContinue rnd s) = ContextStep)
   \<and> (currentStep s = ContextStep \<and> options s = [a, b] \<and> (a \<noteq> [] \<or> b \<noteq> []) \<and> draws_ok rnd \<longrightarrow>
      error (handleContinue rnd s) = None \<and> analysis (handleContinue rnd s) \<noteq> None
      \<and> submitted (handleContinue rnd s) \<and> currentStep (handleContinue rnd s) = AnalysisStep)"
proof (intro conjI impI)
  assume "currentStep s = QuestionStep \<and> question (decision s) \<in> {None, Some []}"
  then show "error (handleContinue rnd s) = Some ''Please enter a decision question''"
    and "currentStep (handleContinue rnd s) = QuestionStep"
    by (auto simp add: handleContinue_def truthy_opt_def truthy_def)
next
  assume "currentStep s = QuestionStep \<and> question (decision s) \<notin> {None, Some []}"
  then show "error (handleContinue rnd s) = None"
    and "currentStep (handleContinue rnd s) = IntuitionStep"
    by (auto simp add: handleContinue_def truthy_opt_def truthy_def split: option.splits)
next
  assume "currentStep s = ContextStep \<and> options s = [[], []]"
  then show "error (handleContinue rnd s) = Some ''Please enter at least one option you are considering''"
    and "currentStep (handleContinue rnd s) = ContextStep"
    by (simp_all add: handleContinue_def js_index_def)
next
  assume h: "currentStep s = ContextStep \<and> options s = [a, b] \<and> (a \<noteq> [] \<or> b \<noteq> []) \<and> draws_ok rnd"
  then have "handleContinue rnd s = handleSubmit rnd (s\<lparr>error := None\<rparr>)"
    by (auto simp add: handleContinue_def js_index_def)
  with h handleSubmit_settled [of rnd "s\<lparr>error := None\<rparr>"]
  show "error (handleContinue rnd s) = None" and "analysis (handleContinue rnd s) \<noteq> None"
    and "submitted (handleContinue rnd s)" and "currentStep (handleContinue rnd s) = AnalysisStep"
    by simp_all
qed

text \<open>The four cases of C3 on the sessions above.\<close>

theorem handleContinue_validation_witness:
  "error (handleContinue half_draws initial_state) = Some ''Please enter a decision question''
   \<and> currentStep (handleContinue half_draws initial_state) = QuestionStep
   \<and> error (handleContinue half_draws (handleQuestionChange ''Should I move cities?'' initial_state)) = None
   \<and> currentStep (handleContinue half_draws (handleQuestionChange ''Should I move cities?'' initial_state)) = IntuitionStep
   \<and> error (handleContinue half_draws (run events_to_context initial_state))
       = Some ''Please enter at least one option you are considering''
   \<and> currentStep (handleContinue half_draws (run events_to_context initial_state)) = ContextStep
   \<and> error (handleContinue half_draws (handleOptionChange 1 ''Stay'' (run events_to_context initial_state))) = None
   \<and> analysis (handleContinue half_draws (handleOptionChange 1 ''Stay'' (run events_to_context initial_state))) \<noteq> None
   \<and> submitted (handleContinue half_draws (handleOptionChange 1 ''Stay'' (run events_to_context initial_state)))
   \<and> currentStep (handleContinue half_draws (handleOptionChange 1 ''Stay'' (run events_to_context initial_state)))
       = AnalysisStep"
proof -
  have h1: "currentStep initial_state = QuestionStep \<and> question (decision initial_state) \<in> {None, Some []}"
    by (simp add: initial_state_def)
  have h2: "currentStep (handleQuestionChange ''Should I move cities?'' initial_state) = QuestionStep
            \<and> question (decision (handleQuestionChange ''Should I move cities?'' initial_state)) \<notin> {None, Some []}"
    by code_simp
  have h3: "currentStep (run events_to_context initial_state) = ContextStep
            \<and> options (run events_to_context initial_state) = [[], []]"
    by code_simp
  have "currentStep (handleOptionChange 1 ''Stay'' (run events_to_context initial_state)) = ContextStep
        \<and> options (handleOptionChange 1 ''Stay'' (run events_to_context initial_state)) = [[], ''Stay'']"
    by code_simp
  with half_draws_ok
  have h4: "currentStep (handleOptionChange 1 ''Stay'' (run events_to_context initial_state)) = ContextStep
            \<and> options (handleOptionChange 1 ''Stay'' (run events_to_context initial_state)) = [[], ''Stay'']
            \<and> ([] \<noteq> [] \<or> ''Stay'' \<noteq> []) \<and> draws_ok half_draws"
    by simp
  from handleContinue_validation [of initial_state half_draws, THEN conjunct1] h1
  have r1: "error (handleContinue half_draws initial_state) = Some ''Please enter a decision question''
            \<and> currentStep (handleContinue half_draws initial_state) = QuestionStep"
    by (rule mp)
  from handleContinue_validation [of "handleQuestionChange ''Should I move cities?'' initial_state"
      half_draws, THEN conjunct2, THEN conjunct1] h2
  have r2: "error (handleContinue half_draws (handleQuestionChange ''Should I move cities?'' initial_state)) = None
            \<and> currentStep (handleContinue half_draws (handleQuestionChange ''Should I move cities?'' initial_state)) = IntuitionStep"
    by (rule mp)
  from handleContinue_validation [of "run events_to_context initial_state" half_draws,
      THEN conjunct2, THEN conjunct2, THEN conjunct1] h3
  have r3: "error (handleContinue half_draws (run events_to_context initial_state))
              = Some ''Please enter at least one option you are considering''
            \<and> currentStep (handleContinue half_draws (run events_to_context initial_state)) = ContextStep"
    by (rule mp)
  from handleContinue_validation [of "handleOptionChange 1 ''Stay'' (run events_to_context initial_state)"
      half_draws "[]" "''Stay''", THEN conjunct2, THEN conjunct2, THEN conjunct2] h4
  have r4: "error (handleContinue half_draws (handleOptionChange 1 ''Stay'' (run events_to_context initial_state))) = None
   \<and> analysis (handleContinue half_draws (handleOptionChange 1 ''Stay'' (run events_to_context initial_state))) \<noteq> None
   \<and> submitted (handleContinue half_draws (handleOptionChange 1 ''Stay'' (run events_to_context initial_state)))
   \<and> currentStep (handleContinue half_draws (handleOptionChange 1 ''Stay'' (run events_to_context initial_state)))
       = AnalysisStep"
    by (rule mp)
  from r1 r2 r3 r4 show ?thesis
    by (elim conjE) (intro conjI, assumption+)
qed

section \<open>The validation error and field edits\<close>

text \<open>
  C7, as stated, fails: no edit handler writes the error cell. After a failed forward
  step from the initial state the error is set, and it is still there after the
  question has been edited.
\<close>

theorem field_edit_clears_error_counterexample:
  "error (run [Continue half_draws] initial_state) = Some ''Please enter a decision question''
   \<and> error (run [Continue half_draws, QuestionChange ''Should I move cities?''] initial_state)
       = Some ''Please enter a decision question''"
  by code_simp

text \<open>
  C7, amended. In a state carrying a validation error, editing the question, the
  intuition, an option, the stakes or the values leaves the error as it is; a
  successful forward transition (from the question, intuition or context step) clears
  it.
\<close>

theorem field_edit_keeps_error:
  assumes "error s = Some msg"
  shows "error (handleQuestionChange q s) = Some msg
     \<and> error (handleInitialIntuitionChange intuition s) = Some msg
     \<and> error (handleOptionChange i opt s) = Some msg
     \<and> error (handleStakesChange stk s) = Some msg
     \<and> error (handleValueChange vals s) = Some msg
     \<and> (currentStep s = QuestionStep \<and> question (decision s) \<notin> {None, Some []}
        \<longrightarrow> error (handleContinue rnd s) = None)
     \<and> (currentStep s = IntuitionStep \<and> initialIntuition s \<noteq> []
        \<longrightarrow> error (handleContinue rnd s) = None)
     \<and> (currentStep s = ContextStep \<and> options s = [a, b] \<and> (a \<noteq> [] \<or> b \<noteq> []) \<and> draws_ok rnd
        \<longrightarrow> error (handleContinue rnd s) = None)"
proof -
  have "error (handleQuestionChange q s) = Some msg"
    using assms
    by (simp add: handleQuestionChange_def safety_check_def Let_def split: option.splits)
  moreover have "error (handleInitialIntuitionChange intuition s) = Some msg"
    using assms by (simp add: handleInitialIntuitionChange_def)
  moreover have "error (handleOptionChange i opt s) = Some msg"
    using assms by (simp add: handleOptionChange_def)
  moreover have "error (handleStakesChange stk s) = Some msg"
    using assms by (simp add: handleStakesChange_def)
  moreover have "error (handleValueChange vals s) = Some msg"
    using assms by (simp add: handleValueChange_def)
  moreover have "currentStep s = QuestionStep \<and> question (decision s) \<notin> {None, Some []}
        \<longrightarrow> error (handleContinue rnd s) = None"
    by (auto simp add: handleContinue_def truthy_opt_def truthy_def split: option.splits)
  moreover have "currentStep s = IntuitionStep \<and> initialIntuition s \<noteq> []
        \<longrightarrow> error (handleContinue rnd s) = None"
    by (simp add: handleContinue_def truthy_def)
  moreover have "currentStep s = ContextStep \<and> options s = [a, b] \<and> (a \<noteq> [] \<or> b \<noteq> []) \<and> draws_ok rnd
        \<longrightarrow> error (handleContinue rnd s) = None"
  proof
    assume h: "currentStep s = ContextStep \<and> options s = [a, b] \<and> (a \<noteq> [] \<or> b \<noteq> []) \<and> draws_ok rnd"
    then have "handleContinue rnd s = handleSubmit rnd (s\<lparr>error := None\<rparr>)"
      by (auto simp add: handleContinue_def js_index_def)
    with h handleSubmit_settled [of rnd "s\<lparr>error := None\<rparr>"]
    show "error (handleContinue rnd s) = None" by simp
  qed
  ultimately show ?thesis by (intro conjI)
qed

text \<open>
  C7 amended, after a failed forward step: each of the five edits keeps the message, and
  at each of the three steps the forward step that follows the repairing edit clears it.
\<close>

theorem field_edit_keeps_error_witness:
  "error (handleQuestionChange ''Should I move cities?'' (run [Continue half_draws] initial_state))
     = Some ''Please enter a decision question''
   \<and> error (handleInitialIntuitionChange ''Go'' (run [Continue half_draws] initial_state))
     = Some ''Please enter a decision question''
   \<and> error (handleOptionChange 0 ''Move'' (run [Continue half_draws] initial_state))
     = Some ''Please enter a decision question''
   \<and> error (handleStakesChange ''My career'' (run [Continue half_draws] initial_state))
     = Some ''Please enter a decision question''
   \<and> error (handleValueChange [''Family''] (run [Continue half_draws] initial_state))
     = Some ''Please enter a decision question''
   \<and> error (handleContinue half_draws
        (run [Continue half_draws, QuestionChange ''Should I move cities?''] initial_state)) = None
   \<and> error (handleContinue half_draws (run events_to_intuition_error initial_state)) = None
   \<and> error (handleContinue half_draws (run events_to_context_error initial_state)) = None"
proof -
  have e1: "error (run [Continue half_draws] initial_state) = Some ''Please enter a decision question''"
    by code_simp
  have e2: "error (run [Continue half_draws, QuestionChange ''Should I move cities?''] initial_state)
      = Some ''Please enter a decision question''"
    by code_simp
  have q: "currentStep (run [Continue half_draws, QuestionChange ''Should I move cities?''] initial_state)
      = QuestionStep
     \<and> question (decision (run [Continue half_draws, QuestionChange ''Should I move cities?'']
          initial_state)) \<notin> {None, Some []}"
    by code_simp
  have e3: "error (run events_to_intuition_error initial_state)
      = Some ''Please share your initial intuition''"
    by code_simp
  have i: "currentStep (run events_to_intuition_error initial_state) = IntuitionStep
     \<and> initialIntuition (run events_to_intuition_error initial_state) \<noteq> []"
    by code_simp
  have e4: "error (run events_to_context_error initial_state)
      = Some ''Please enter at least one option you are considering''"
    by code_simp
  have "currentStep (run events_to_context_error initial_state) = ContextStep
     \<and> options (run events_to_context_error initial_state) = [''Move'', []]"
    by code_simp
  with half_draws_ok
  have c: "currentStep (run events_to_context_error initial_state) = ContextStep
     \<and> options (run events_to_context_error initial_state) = [''Move'', []]
     \<and> (''Move'' \<noteq> [] \<or> [] \<noteq> []) \<and> draws_ok half_draws"
    by simp
  note edits = field_edit_keeps_error [OF e1, where q = "''Should I move cities?''"
      and intuition = "''Go''" and i = 0 and opt = "''Move''" and stk = "''My career''"
      and vals = "[''Family'']"]
  from field_edit_keeps_error [OF e2, where rnd = half_draws, THEN conjunct2, THEN conjunct2,
      THEN conjunct2, THEN conjunct2, THEN conjunct2, THEN conjunct1] q
  have from_question: "error (handleContinue half_draws
        (run [Continue half_draws, QuestionChange ''Should I move cities?''] initial_state)) = None"
    by (rule mp)
  from field_edit_keeps_error [OF e3, where rnd = half_draws, THEN conjunct2, THEN conjunct2,
      THEN conjunct2, THEN conjunct2, THEN conjunct2, THEN conjunct2, THEN conjunct1] i
  have from_intuition:
    "error (handleContinue half_draws (run events_to_intuition_error initial_state)) = None"
    by (rule mp)
  from field_edit_keeps_error [OF e4, where rnd = half_draws and a = "''Move''" and b = "[]",
      THEN conjunct2, THEN conjunct2, THEN conjunct2, THEN conjunct2, THEN conjunct2,
      THEN conjunct2, THEN conjunct2] c
  have from_context:
    "error (handleContinue half_draws (run events_to_context_error initial_state)) = None"
    by (rule mp)
  show ?thesis
    by (intro conjI)
      (rule edits [THEN conjunct1]
        edits [THEN conjunct2, THEN conjunct1]
        edits [THEN conjunct2, THEN conjunct2, THEN conjunct1]
        edits [THEN conjunct2, THEN conjunct2, THEN conjunct2, THEN conjunct1]
        edits [THEN conjunct2, THEN conjunct2, THEN conjunct2, THEN conjunct2, THEN conjunct1]
        from_question from_intuition from_context)+
qed

section \<open>Invalidation on edit\<close>

text \<open>
  C4. Invalidation is asymmetric: in a state with the submitted flag set, editing the
  question clears the flag, discards the stored analysis and puts the step back to
  question, whereas editing an option, the stakes, the values, the intuition or the
  confidence leaves the flag, the stored analysis and the step as they are.
\<close>

theorem question_edit_invalidates:
  assumes "submitted s"
  shows "analysis_status (handleQuestionChange q s) = (False, None, QuestionStep)
     \<and> analysis_status (handleOptionChange i v s) = analysis_status s
     \<and> analysis_status (handleStakesChange v s) = analysis_status s
     \<and> analysis_status (handleValueChange vs s) = analysis_status s
     \<and> analysis_status (handleInitialIntuitionChange v s) = analysis_status s
     \<and> analysis_status (handleConfidenceChange n s) = analysis_status s"
proof -
  have "analysis_status (handleQuestionChange q s) = (False, None, QuestionStep)"
    using assms
    by (simp add: analysis_status_def handleQuestionChange_def safety_check_def Let_def
        split: option.splits)
  moreover have "analysis_status (handleOptionChange i v s) = analysis_status s"
    by (simp add: analysis_status_def handleOptionChange_def)
  moreover have "analysis_status (handleStakesChange v s) = analysis_status s"
    by (simp add: analysis_status_def handleStakesChange_def)
  moreover have "analysis_status (handleValueChange vs s) = analysis_status s"
    by (simp add: analysis_status_def handleValueChange_def)
  moreover have "analysis_status (handleInitialIntuitionChange v s) = analysis_status s"
    by (simp add: analysis_status_def handleInitialIntuitionChange_def)
  moreover have "analysis_status (handleConfidenceChange n s) = analysis_status s"
    by (simp add: analysis_status_def handleConfidenceChange_def)
  ultimately show ?thesis by (intro conjI)
qed

lemma analysed_session_submitted: "submitted (run events_to_analysis initial_state)"
  by code_simp

text \<open>C4 after the analysed session: the question edit resets, the other five edits do not.\<close>

theorem question_edit_invalidates_witness:
  "analysis_status (handleQuestionChange ''Should I stay?'' (run events_to_analysis initial_state))
      = (False, None, QuestionStep)
   \<and> analysis_status (handleOptionChange 0 ''Stay'' (run events_to_analysis initial_state))
      = analysis_status (run events_to_analysis initial_state)
   \<and> analysis_status (handleStakesChange ''Stay'' (run events_to_analysis initial_state))
      = analysis_status (run events_to_analysis initial_state)
   \<and> analysis_status (handleValueChange [''Family''] (run events_to_analysis initial_state))
      = analysis_status (run events_to_analysis initial_state)
   \<and> analysis_status (handleInitialIntuitionChange ''Stay'' (run events_to_analysis initial_state))
      = analysis_status (run events_to_analysis initial_state)
   \<and> analysis_status (handleConfidenceChange 90 (run events_to_analysis initial_state))
      = analysis_status (run events_to_analysis initial_state)"
  by (rule question_edit_invalidates [OF analysed_session_submitted])

section \<open>Reset\<close>

text \<open>
  C8. In every state (so in every reachable one) the reset handler yields the initial
  values: question empty, balance 50, time horizon 50, two empty options, no stakes, no
  values, no intuition, confidence 70, no analysis, submitted flag off, the four
  disclosure flags (bias detail, third option, time capsule scheduled, journal saved)
  cleared, and the step at question.
\<close>

theorem startNew_defaults:
  "question (decision (startNew s)) = Some []
   \<and> balanceScore (decision (startNew s)) = Some 50
   \<and> timeHorizon (decision (startNew s)) = Some 50
   \<and> options (startNew s) = [[], []]
   \<and> stakes (startNew s) = []
   \<and> selectedValues (startNew s) = []
   \<and> initialIntuition (startNew s) = []
   \<and> confidenceScore (startNew s) = 70
   \<and> analysis (startNew s) = None
   \<and> submitted (startNew s) = False
   \<and> showBiasInfo (startNew s) = None
   \<and> showThirdOption (startNew s) = False
   \<and> timeCapsuleScheduled (startNew s) = False
   \<and> journalSaved (startNew s) = False
   \<and> currentStep (startNew s) = QuestionStep"
  by (simp add: startNew_def)

text \<open>
  The cells the handler does not write keep their value; the result is the initial
  state up to those.
\<close>

lemma startNew_initial:
  "startNew s = initial_state\<lparr>loading := loading s, error := error s,
     showSafetyDialog := showSafetyDialog s, safetyMessage := safetyMessage s,
     showTimeCapsule := showTimeCapsule s, showJournalDialog := showJournalDialog s\<rparr>"
  by (simp add: startNew_def initial_state_def)

section \<open>The reserved step\<close>

lemma apply_event_step:
  assumes "currentStep s \<noteq> ConfidenceStep"
  shows "currentStep (apply_event e s) \<noteq> ConfidenceStep"
proof (cases e)
  case (QuestionChange q)
  with assms show ?thesis
    by (simp add: handleQuestionChange_def safety_check_def Let_def split: option.splits)
next
  case (Continue rnd)
  from handleSubmit_step [of rnd "s\<lparr>error := None\<rparr>"] assms
  have "currentStep (handleSubmit rnd (s\<lparr>error := None\<rparr>)) \<noteq> ConfidenceStep"
    by auto
  with Continue assms show ?thesis
    by (simp add: handleContinue_def)
next
  case Back
  with assms show ?thesis by (simp add: handleBack_def)
next
  case StartNew
  then show ?thesis by (simp add: startNew_def)
qed (use assms in \<open>simp_all add: handleBalanceChange_def handleTimeHorizonChange_def
      handleInitialIntuitionChange_def handleConfidenceChange_def handleOptionChange_def
      handleStakesChange_def handleValueChange_def\<close>)

lemma run_step:
  "currentStep s \<noteq> ConfidenceStep \<Longrightarrow> currentStep (run evs s) \<noteq> ConfidenceStep"
  by (induction evs arbitrary: s) (simp_all add: apply_event_step)

text \<open>
  C9. The step value \<^verbatim>\<open>'confidence'\<close> is unreachable: no sequence of events (forward,
  back, field edits, reset, and the secondary toggles) from the initial state ends in a
  state whose step is \<^verbatim>\<open>'confidence'\<close>.
\<close>

theorem confidence_unreachable: "currentStep (run evs initial_state) \<noteq> ConfidenceStep"
  by (rule run_step) (simp add: initial_state_def)

text \<open>The array of options keeps its two slots, so every write of an option is in range.\<close>

lemma apply_event_options_length:
  assumes "length (options s) = 2"
  shows "length (options (apply_event e s)) = 2"
proof (cases e)
  case (QuestionChange q)
  with assms show ?thesis
    by (simp add: handleQuestionChange_def safety_check_def Let_def split: option.splits)
next
  case (Continue rnd)
  have "options (handleSubmit rnd (s\<lparr>error := None\<rparr>)) = options s"
    by (simp add: handleSubmit_def split: option.splits)
  with Continue assms show ?thesis
    by (simp add: handleContinue_def)
next
  case Back
  with assms show ?thesis by (simp add: handleBack_def)
next
  case StartNew
  then show ?thesis by (simp add: startNew_def)
qed (use assms in \<open>simp_all add: handleBalanceChange_def handleTimeHorizonChange_def
      handleInitialIntuitionChange_def handleConfidenceChange_def handleOptionChange_def
      handleStakesChange_def handleValueChange_def\<close>)

lemma options_length: "length (options (run evs initial_state)) = 2"
proof -
  have "length (options s) = 2 \<Longrightarrow> length (options (run evs s)) = 2" for s
    by (induction evs arbitrary: s) (simp_all add: apply_event_options_length)
  then show ?thesis by (simp add: initial_state_def)
qed

section \<open>The framing of the recommendation\<close>

text \<open>
  The recommendation opens with the logical framing and the local \<^verbatim>\<open>balanceScore\<close> when
  that is above 50, and otherwise with the emotional framing and 100 minus it. The
  local is the slider's value only when that is not 0.
\<close>

lemma mockAnalysis_result:
  assumes "mockAnalysis d opts stk vals intuition rnd = Some a"
  obtains t where
    "recommendation_text (question d) (js_or_default (balanceScore d) 50)
       (js_or_default (timeHorizon d) 50) opts stk vals intuition (rnd 0) = Some t"
    "recommendation a = t"
proof -
  from assms have "recommendation_text (question d) (js_or_default (balanceScore d) 50)
      (js_or_default (timeHorizon d) 50) opts stk vals intuition (rnd 0) \<noteq> None"
    by (auto simp add: mockAnalysis_def Let_def split: option.splits)
  then obtain t where t: "recommendation_text (question d) (js_or_default (balanceScore d) 50)
      (js_or_default (timeHorizon d) 50) opts stk vals intuition (rnd 0) = Some t"
    by blast
  from assms have "recommendation a = t"
    unfolding mockAnalysis_def Let_def t option.case
    by (metis Analysis.select_convs(1) option.inject)
  with t show ?thesis by (rule that)
qed

lemma recommendation_framing:
  assumes "mockAnalysis d opts stk vals intuition rnd = Some a"
  shows "prefix
     (''Your approach to '' @ dq @ template_string (question d) @ dq @
      (if js_or_default (balanceScore d) 50 > 50
       then '' is primarily logical ('' @ number_to_string (js_or_default (balanceScore d) 50)
            @ ''% logical). ''
       else '' is primarily emotional ('' @ number_to_string (100 - js_or_default (balanceScore d) 50)
            @ ''% emotional). ''))
     (recommendation a)"
proof -
  from assms obtain t where
    t: "recommendation_text (question d) (js_or_default (balanceScore d) 50)
       (js_or_default (timeHorizon d) 50) opts stk vals intuition (rnd 0) = Some t"
    and r: "recommendation a = t"
    by (rule mockAnalysis_result)
  show ?thesis
  proof (cases "js_or_default (balanceScore d) 50 > 50")
    case True
    with t show ?thesis
      unfolding r recommendation_text_def Let_def
      by (auto split: option.splits if_splits)
  next
    case False
    with t show ?thesis
      unfolding r recommendation_text_def Let_def
      by auto
  qed
qed

text \<open>
  C1 at a balance score of 0, the slider's "fully emotional" end. The recommendation has
  the emotional framing but states 50% emotional, where 100 - 0 = 100% is claimed:
  \<^verbatim>\<open>decision.balanceScore || 50\<close> has replaced the 0 by 50.
\<close>

theorem zero_balance_recommendation:
  "balanceScore (decision (run (zero_balance_events half_draws) initial_state)) = Some 0
   \<and> map_option recommendation (analysis (run (zero_balance_events half_draws) initial_state))
     = Some (''Your approach to '' @ dq @ ''Should I move cities?'' @ dq
             @ '' is primarily emotional (50% emotional). ''
             @ ''Consider writing down the practical pros and cons to complement your emotional intuition.''
             @ nl @ nl @ ''Your initial intuition was: '' @ dq @ ''Go'' @ dq @ ''. ''
             @ ''You're focusing more on short-term outcomes. Consider if this aligns with the importance of this decision.'')"
  by code_simp

section \<open>Bias detection\<close>

text \<open>
  The scan of \<^verbatim>\<open>includes\<close> finds exactly the contiguous occurrences, and an occurrence in
  the lower-cased text is an occurrence up to case in the text itself.
\<close>

lemma js_includes_sublist: "js_includes s p = sublist p s"
  by (induction s) (simp_all add: sublist_Cons_right)

lemma contains_ignoring_case:
  "sublist p (toLowerCase t) = (\<exists>ps w ss. t = ps @ w @ ss \<and> toLowerCase w = p)"
proof
  assume "sublist p (toLowerCase t)"
  then obtain a b where "map lower_char t = a @ p @ b"
    unfolding sublist_def toLowerCase_def by blast
  then obtain ps rest where t: "t = ps @ rest" and "p @ b = map lower_char rest"
    unfolding map_eq_append_conv by blast
  then obtain w ss where "rest = w @ ss" and "p = map lower_char w"
    unfolding append_eq_map_conv by blast
  with t have "t = ps @ w @ ss \<and> toLowerCase w = p"
    by (simp add: toLowerCase_def)
  then show "\<exists>ps w ss. t = ps @ w @ ss \<and> toLowerCase w = p"
    by blast
next
  assume "\<exists>ps w ss. t = ps @ w @ ss \<and> toLowerCase w = p"
  then obtain ps w ss where "t = ps @ w @ ss" and "toLowerCase w = p"
    by blast
  then have "toLowerCase t = toLowerCase ps @ p @ toLowerCase ss"
    by (simp add: toLowerCase_def)
  then show "sublist p (toLowerCase t)"
    unfolding sublist_def by blast
qed

lemma mockAnalysis_biases:
  assumes "mockAnalysis d opts stk vals intuition rnd = Some a"
  shows "\<exists>f e. detectedBiases a = detect_biases f e (js_or_default (balanceScore d) 50) opts"
proof -
  from assms have "recommendation_text (question d) (js_or_default (balanceScore d) 50)
      (js_or_default (timeHorizon d) 50) opts stk vals intuition (rnd 0) \<noteq> None"
    by (auto simp add: mockAnalysis_def Let_def split: option.splits)
  then obtain t where t: "recommendation_text (question d) (js_or_default (balanceScore d) 50)
      (js_or_default (timeHorizon d) 50) opts stk vals intuition (rnd 0) = Some t"
    by blast
  from assms show ?thesis
    unfolding mockAnalysis_def Let_def t option.case
    by (metis Analysis.select_convs(4) option.inject)
qed

lemma catalog_types:
  "biasType (COGNITIVE_BIASES ! 0) = ''Loss Aversion''"
  "biasType (COGNITIVE_BIASES ! 3) = ''Status Quo Bias''"
  "biasType (COGNITIVE_BIASES ! 4) = ''Emotional Reasoning''"
  by (simp_all add: COGNITIVE_BIASES_def)

lemma status_quo_detected:
  "(''Status Quo Bias'' \<in> biasType ` set (detect_biases f e bs opts))
   = (\<exists>o0. js_index opts 0 = Some o0
          \<and> (sublist ''stay'' (toLowerCase o0) \<or> sublist ''current'' (toLowerCase o0)))"
  by (cases "js_index opts 0") (auto simp add: detect_biases_def catalog_types js_includes_sublist)

lemma loss_aversion_detected:
  "(''Loss Aversion'' \<in> biasType ` set (detect_biases f e bs opts)) = (f > 70 \<and> bs < 40)"
  by (auto simp add: detect_biases_def catalog_types)

text \<open>
  C5. For every submission that produces an analysis, Status Quo Bias is among the
  detected biases exactly when \<^verbatim>\<open>options[0]\<close>, lower-cased, contains "stay" or
  "current"; any other submission with the same \<^verbatim>\<open>options[0]\<close>, whatever its second
  option, agrees on it.
\<close>

theorem status_quo_bias_slot0:
  assumes "mockAnalysis d opts stk vals intuition rnd = Some a"
  shows "(''Status Quo Bias'' \<in> biasType ` set (detectedBiases a))
         = (\<exists>o0. js_index opts 0 = Some o0
                \<and> (sublist ''stay'' (toLowerCase o0) \<or> sublist ''current'' (toLowerCase o0)))
     \<and> (js_index opts' 0 = js_index opts 0
          \<and> mockAnalysis d' opts' stk' vals' intuition' rnd' = Some a'
        \<longrightarrow> (''Status Quo Bias'' \<in> biasType ` set (detectedBiases a'))
            = (''Status Quo Bias'' \<in> biasType ` set (detectedBiases a)))"
proof -
  from mockAnalysis_biases [OF assms] obtain f e where
    a: "detectedBiases a = detect_biases f e (js_or_default (balanceScore d) 50) opts"
    by blast
  have first: "(''Status Quo Bias'' \<in> biasType ` set (detectedBiases a))
         = (\<exists>o0. js_index opts 0 = Some o0
                \<and> (sublist ''stay'' (toLowerCase o0) \<or> sublist ''current'' (toLowerCase o0)))"
    unfolding a by (rule status_quo_detected)
  have "(''Status Quo Bias'' \<in> biasType ` set (detectedBiases a'))
            = (''Status Quo Bias'' \<in> biasType ` set (detectedBiases a))"
    if same: "js_index opts' 0 = js_index opts 0"
      and other: "mockAnalysis d' opts' stk' vals' intuition' rnd' = Some a'"
  proof -
    from mockAnalysis_biases [OF other] obtain f' e' where
      a': "detectedBiases a' = detect_biases f' e' (js_or_default (balanceScore d') 50) opts'"
      by blast
    show ?thesis unfolding first unfolding a' status_quo_detected same ..
  qed
  with first show ?thesis by blast
qed

text \<open>
  C5 on the scenario of the specification and on its mirror image: "Stay current job"
  in the second slot does not trigger the bias, in the first slot it does; and a third
  submission that shares only the first slot with the scenario agrees with it.
\<close>

theorem status_quo_bias_slot0_witness:
  "\<exists>a b c. mockAnalysis scenario_decision [''Move'', ''Stay current job''] [] [] ''Go'' half_draws = Some a
      \<and> mockAnalysis scenario_decision [''Stay current job'', ''Move''] [] [] ''Go'' half_draws = Some b
      \<and> mockAnalysis scenario_decision [''Move'', ''Leave''] ''My career'' [''Family''] ''Go'' high_draws = Some c
      \<and> ''Status Quo Bias'' \<notin> biasType ` set (detectedBiases a)
      \<and> ''Status Quo Bias'' \<in> biasType ` set (detectedBiases b)
      \<and> (''Status Quo Bias'' \<in> biasType ` set (detectedBiases c))
          = (''Status Quo Bias'' \<in> biasType ` set (detectedBiases a))"
proof -
  from mockAnalysis_total [OF half_draws_ok] obtain a where
    a: "mockAnalysis scenario_decision [''Move'', ''Stay current job''] [] [] ''Go'' half_draws = Some a"
    by blast
  from mockAnalysis_total [OF half_draws_ok] obtain b where
    b: "mockAnalysis scenario_decision [''Stay current job'', ''Move''] [] [] ''Go'' half_draws = Some b"
    by blast
  from mockAnalysis_total [OF high_draws_ok] obtain c where
    c: "mockAnalysis scenario_decision [''Move'', ''Leave''] ''My career'' [''Family''] ''Go'' high_draws = Some c"
    by blast
  have m: "js_index [''Move'', ''Stay current job''] 0 = Some ''Move''"
    and s: "js_index [''Stay current job'', ''Move''] 0 = Some ''Stay current job''"
    and l: "js_index [''Move'', ''Leave''] 0 = js_index [''Move'', ''Stay current job''] 0"
    by (simp_all add: js_index_def)
  have no: "\<not> sublist ''stay'' (toLowerCase ''Move'')" "\<not> sublist ''current'' (toLowerCase ''Move'')"
    by code_simp+
  have yes: "sublist ''stay'' (toLowerCase ''Stay current job'')"
    by code_simp
  from status_quo_bias_slot0 [OF a, THEN conjunct1] m no
  have na: "''Status Quo Bias'' \<notin> biasType ` set (detectedBiases a)" by simp
  from status_quo_bias_slot0 [OF b, THEN conjunct1] s yes
  have yb: "''Status Quo Bias'' \<in> biasType ` set (detectedBiases b)" by simp
  from l c have "js_index [''Move'', ''Leave''] 0 = js_index [''Move'', ''Stay current job''] 0
      \<and> mockAnalysis scenario_decision [''Move'', ''Leave''] ''My career'' [''Family''] ''Go'' high_draws = Some c"
    by (rule conjI)
  with status_quo_bias_slot0 [OF a, THEN conjunct2]
  have same: "(''Status Quo Bias'' \<in> biasType ` set (detectedBiases c))
          = (''Status Quo Bias'' \<in> biasType ` set (detectedBiases a))"
    by (rule mp)
  from a b c na yb same show ?thesis by (intro exI conjI)
qed

text \<open>
  Loss Aversion is detected exactly when the financial-impact score is above 70 and the
  local \<^verbatim>\<open>balanceScore\<close> is below 40.
\<close>

lemma value_factor_names:
  "find (\<lambda>f. factor_name f = ''Financial impact'') (value_factors vals rnd k @ fs)
   = find (\<lambda>f. factor_name f = ''Financial impact'') fs"
proof (induction vals arbitrary: k)
  case Nil
  show ?case by simp
next
  case (Cons v vs)
  have "\<not> suffix '' alignment'' ''Financial impact''" by code_simp
  then have "v @ '' alignment'' \<noteq> ''Financial impact''"
    by (metis suffixI)
  with Cons show ?case by simp
qed

lemma loss_aversion_effective:
  assumes "mockAnalysis d opts stk vals intuition rnd = Some a"
  shows "(''Loss Aversion'' \<in> biasType ` set (detectedBiases a))
         = (\<exists>f. financial_score a = Some f \<and> f > 70 \<and> js_or_default (balanceScore d) 50 < 40)"
proof -
  from assms obtain t where
    t: "recommendation_text (question d) (js_or_default (balanceScore d) 50)
       (js_or_default (timeHorizon d) 50) opts stk vals intuition (rnd 0) = Some t"
    by (rule mockAnalysis_result)
  define k where "k = (if js_or_default (balanceScore d) 50 > 50 \<and> length vals > 0 then 1 else 0) + length vals"
  from assms have b: "detectedBiases a
      = detect_biases \<lfloor>rnd k * 100\<rfloor> \<lfloor>rnd (k + 1) * 100\<rfloor> (js_or_default (balanceScore d) 50) opts"
    unfolding mockAnalysis_def Let_def t option.case k_def
    by (metis Analysis.select_convs(4) option.inject)
  from assms have "\<exists>fs rest. factors a = value_factors vals rnd fs
      @ \<lparr>factor_name = ''Financial impact'', factor_score = \<lfloor>rnd k * 100\<rfloor>, valueAlignment = None\<rparr> # rest"
    unfolding mockAnalysis_def Let_def t option.case k_def
    by (metis Analysis.select_convs(2) option.inject append_Cons)
  then have f: "financial_score a = Some \<lfloor>rnd k * 100\<rfloor>"
    by (auto simp add: financial_score_def value_factor_names)
  show ?thesis unfolding b loss_aversion_detected f by auto
qed

text \<open>
  C2 at a balance score of 0 with every draw 0.8. The financial-impact score is 80 and
  the balance score is 0, so Loss Aversion is claimed; no bias at all is detected,
  because the comparison is made with 50 in place of the 0.
\<close>

theorem zero_balance_no_loss_aversion:
  "balanceScore (decision (run (zero_balance_events high_draws) initial_state)) = Some 0
   \<and> Option.bind (analysis (run (zero_balance_events high_draws) initial_state)) financial_score
     = Some 80
   \<and> map_option detectedBiases (analysis (run (zero_balance_events high_draws) initial_state))
     = Some []"
  by code_simp

section \<open>Option positions\<close>

text \<open>
  What the code does by design: the keys are the non-empty options; the position
  computed for the first option is a jitter of less than 10 per axis around the locals
  \<^verbatim>\<open>balanceScore\<close> and \<^verbatim>\<open>timeHorizon\<close>, clamped to \<open>[15, 85]\<close>; the second option is placed
  in \<open>[10, 45]\<close> on an axis where the first lies above 50 and in \<open>[55, 90]\<close> otherwise. With
  the same text in both slots the one key holds the second position.
\<close>

lemma first_position_window:
  assumes "0 \<le> rnd k" "rnd k < 1" "0 \<le> rnd (k + 1)" "rnd (k + 1) < 1"
  shows "within_jitter (real_of_int bs) (pos_x (first_position bs th rnd k))"
    and "within_jitter (real_of_int th) (pos_y (first_position bs th rnd k))"
    and "15 \<le> pos_x (first_position bs th rnd k)" and "pos_x (first_position bs th rnd k) \<le> 85"
    and "15 \<le> pos_y (first_position bs th rnd k)" and "pos_y (first_position bs th rnd k) \<le> 85"
  using assms
  by (auto simp add: within_jitter_def first_position_def generatePosition_def Let_def max_def min_def)

lemma second_quadrant_range:
  assumes "0 \<le> r1" "r1 < 1" "0 \<le> r2" "r2 < 1"
  shows "if baseX > 50
         then 10 \<le> pos_x (generatePosition baseX baseY True r1 r2)
              \<and> pos_x (generatePosition baseX baseY True r1 r2) \<le> 45
         else 55 \<le> pos_x (generatePosition baseX baseY True r1 r2)
              \<and> pos_x (generatePosition baseX baseY True r1 r2) \<le> 90"
    and "if baseY > 50
         then 10 \<le> pos_y (generatePosition baseX baseY True r1 r2)
              \<and> pos_y (generatePosition baseX baseY True r1 r2) \<le> 45
         else 55 \<le> pos_y (generatePosition baseX baseY True r1 r2)
              \<and> pos_y (generatePosition baseX baseY True r1 r2) \<le> 90"
  using assms by (simp_all add: generatePosition_def Let_def)

lemma option_positions_keys:
  "dom (option_positions bs th opts rnd k)
   = {t. t \<noteq> [] \<and> (js_index opts 0 = Some t \<or> js_index opts 1 = Some t)}"
  by (cases "js_index opts 0"; cases "js_index opts 1")
     (auto simp add: option_positions_def truthy_opt_def truthy_def template_string_def Let_def)

lemma option_positions_first:
  assumes "js_index opts 0 = Some o0" "o0 \<noteq> []" "js_index opts 1 \<noteq> Some o0"
  shows "option_positions bs th opts rnd k o0 = Some (first_position bs th rnd k)"
  using assms
  by (cases "js_index opts 1")
     (auto simp add: option_positions_def truthy_opt_def truthy_def template_string_def Let_def)

lemma option_positions_second:
  assumes "js_index opts 1 = Some o1" "o1 \<noteq> []"
  shows "option_positions bs th opts rnd k o1 = Some (second_position bs th opts rnd k)"
  using assms
  by (simp add: option_positions_def truthy_opt_def truthy_def template_string_def Let_def)

lemma mockAnalysis_positions:
  assumes "mockAnalysis d opts stk vals intuition rnd = Some a"
  shows "\<exists>k. optionPositions a
           = option_positions (js_or_default (balanceScore d) 50) (js_or_default (timeHorizon d) 50)
               opts rnd k"
proof -
  from assms have "recommendation_text (question d) (js_or_default (balanceScore d) 50)
      (js_or_default (timeHorizon d) 50) opts stk vals intuition (rnd 0) \<noteq> None"
    by (auto simp add: mockAnalysis_def Let_def split: option.splits)
  then obtain t where t: "recommendation_text (question d) (js_or_default (balanceScore d) 50)
      (js_or_default (timeHorizon d) 50) opts stk vals intuition (rnd 0) = Some t"
    by blast
  from assms show ?thesis
    unfolding mockAnalysis_def Let_def t option.case
    by (metis Analysis.select_convs(6) option.inject)
qed

lemma option_positions_by_design:
  assumes a: "mockAnalysis d opts stk vals intuition rnd = Some a" and ok: "draws_ok rnd"
  shows "dom (optionPositions a)
         = {t. t \<noteq> [] \<and> (js_index opts 0 = Some t \<or> js_index opts 1 = Some t)}"
    and "js_index opts 0 = Some o0 \<Longrightarrow> o0 \<noteq> [] \<Longrightarrow> js_index opts 1 \<noteq> Some o0 \<Longrightarrow>
         \<exists>p. optionPositions a o0 = Some p
            \<and> within_jitter (real_of_int (js_or_default (balanceScore d) 50)) (pos_x p)
            \<and> within_jitter (real_of_int (js_or_default (timeHorizon d) 50)) (pos_y p)"
    and "js_index opts 0 = Some o0 \<Longrightarrow> o0 \<noteq> [] \<Longrightarrow> js_index opts 1 = Some o1 \<Longrightarrow> o1 \<noteq> [] \<Longrightarrow>
         \<exists>(p0::OptionPosition) p1. optionPositions a o1 = Some p1
            \<and> within_jitter (real_of_int (js_or_default (balanceScore d) 50)) (pos_x p0)
            \<and> within_jitter (real_of_int (js_or_default (timeHorizon d) 50)) (pos_y p0)
            \<and> (if pos_x p0 > 50 then 10 \<le> pos_x p1 \<and> pos_x p1 \<le> 45
                else 55 \<le> pos_x p1 \<and> pos_x p1 \<le> 90)
            \<and> (if pos_y p0 > 50 then 10 \<le> pos_y p1 \<and> pos_y p1 \<le> 45
                else 55 \<le> pos_y p1 \<and> pos_y p1 \<le> 90)"
proof -
  from mockAnalysis_positions [OF a] obtain k where
    m: "optionPositions a
        = option_positions (js_or_default (balanceScore d) 50) (js_or_default (timeHorizon d) 50)
            opts rnd k"
    by blast
  from ok have r: "\<And>j. 0 \<le> rnd j" "\<And>j. rnd j < 1"
    by (simp_all add: draws_ok_def)
  show "dom (optionPositions a)
        = {t. t \<noteq> [] \<and> (js_index opts 0 = Some t \<or> js_index opts 1 = Some t)}"
    unfolding m by (rule option_positions_keys)
  have w: "within_jitter (real_of_int (js_or_default (balanceScore d) 50))
             (pos_x (first_position (js_or_default (balanceScore d) 50)
                (js_or_default (timeHorizon d) 50) rnd k))"
    "within_jitter (real_of_int (js_or_default (timeHorizon d) 50))
             (pos_y (first_position (js_or_default (balanceScore d) 50)
                (js_or_default (timeHorizon d) 50) rnd k))"
    by (rule first_position_window [OF r(1) r(2) r(1) r(2)])+
  show "\<exists>p. optionPositions a o0 = Some p
          \<and> within_jitter (real_of_int (js_or_default (balanceScore d) 50)) (pos_x p)
          \<and> within_jitter (real_of_int (js_or_default (timeHorizon d) 50)) (pos_y p)"
    if "js_index opts 0 = Some o0" "o0 \<noteq> []" "js_index opts 1 \<noteq> Some o0"
  proof (intro exI conjI)
    show "optionPositions a o0 = Some (first_position (js_or_default (balanceScore d) 50)
                (js_or_default (timeHorizon d) 50) rnd k)"
      unfolding m by (rule option_positions_first [OF that])
  qed (rule w)+
  show "\<exists>(p0::OptionPosition) p1. optionPositions a o1 = Some p1
          \<and> within_jitter (real_of_int (js_or_default (balanceScore d) 50)) (pos_x p0)
          \<and> within_jitter (real_of_int (js_or_default (timeHorizon d) 50)) (pos_y p0)
          \<and> (if pos_x p0 > 50 then 10 \<le> pos_x p1 \<and> pos_x p1 \<le> 45
              else 55 \<le> pos_x p1 \<and> pos_x p1 \<le> 90)
          \<and> (if pos_y p0 > 50 then 10 \<le> pos_y p1 \<and> pos_y p1 \<le> 45
              else 55 \<le> pos_y p1 \<and> pos_y p1 \<le> 90)"
    if o0: "js_index opts 0 = Some o0" "o0 \<noteq> []" and o1: "js_index opts 1 = Some o1" "o1 \<noteq> []"
  proof -
    let ?bs = "js_or_default (balanceScore d) 50" and ?th = "js_or_default (timeHorizon d) 50"
    let ?p0 = "first_position ?bs ?th rnd k"
    let ?p1 = "generatePosition (pos_x ?p0) (pos_y ?p0) True (rnd (k + 2)) (rnd (k + 3))"
    from o0 have "second_position ?bs ?th opts rnd k = ?p1"
      by (simp add: second_position_def truthy_opt_def truthy_def)
    with option_positions_second [OF o1] have stored: "optionPositions a o1 = Some ?p1"
      unfolding m by simp
    have qx: "if pos_x ?p0 > 50 then 10 \<le> pos_x ?p1 \<and> pos_x ?p1 \<le> 45
              else 55 \<le> pos_x ?p1 \<and> pos_x ?p1 \<le> 90"
      by (rule second_quadrant_range [OF r(1) r(2) r(1) r(2)])
    have qy: "if pos_y ?p0 > 50 then 10 \<le> pos_y ?p1 \<and> pos_y ?p1 \<le> 45
              else 55 \<le> pos_y ?p1 \<and> pos_y ?p1 \<le> 90"
      by (rule second_quadrant_range [OF r(1) r(2) r(1) r(2)])
    show ?thesis
      by (rule exI [of _ ?p0], rule exI [of _ ?p1]) (intro conjI stored w qx qy)
  qed
qed

text \<open>
  C6 at a balance score of 0 with every draw 0.5. The first option is placed at
  \<open>x = 50\<close>, which is not within 10 of the balance score 0 after clamping to \<open>[15, 85]\<close>
  (that window is the single point 15); the time horizon 30 is used as it is.
\<close>

theorem zero_balance_option_position:
  "balanceScore (decision (run (zero_balance_events half_draws) initial_state)) = Some 0
   \<and> timeHorizon (decision (run (zero_balance_events half_draws) initial_state)) = Some 30
   \<and> options (run (zero_balance_events half_draws) initial_state) = [''Move'', []]
   \<and> map_option (\<lambda>a. optionPositions a ''Move'')
        (analysis (run (zero_balance_events half_draws) initial_state))
     = Some (Some \<lparr>pos_x = 50, pos_y = 30\<rparr>)
   \<and> \<not> within_jitter 0 50"
  by code_simp

section \<open>The falsy zero\<close>

text \<open>
  C10. The generator cannot tell a balance score of 0 from 50, nor a time horizon of 0
  from 50: for the same draws the whole result is the same, since both scores enter
  through \<^verbatim>\<open>|| 50\<close>.
\<close>

theorem zero_score_is_fifty:
  "mockAnalysis (d\<lparr>balanceScore := Some 0\<rparr>) opts stk vals intuition rnd
     = mockAnalysis (d\<lparr>balanceScore := Some 50\<rparr>) opts stk vals intuition rnd
   \<and> mockAnalysis (d\<lparr>timeHorizon := Some 0\<rparr>) opts stk vals intuition rnd
     = mockAnalysis (d\<lparr>timeHorizon := Some 50\<rparr>) opts stk vals intuition rnd"
proof
  have eff: "js_or_default (balanceScore (d\<lparr>balanceScore := Some 0\<rparr>)) 50
      = js_or_default (balanceScore (d\<lparr>balanceScore := Some 50\<rparr>)) 50"
    by (simp add: js_or_default_def)
  have rest: "timeHorizon (d\<lparr>balanceScore := Some 0\<rparr>) = timeHorizon (d\<lparr>balanceScore := Some 50\<rparr>)"
    "question (d\<lparr>balanceScore := Some 0\<rparr>) = question (d\<lparr>balanceScore := Some 50\<rparr>)"
    by simp_all
  show "mockAnalysis (d\<lparr>balanceScore := Some 0\<rparr>) opts stk vals intuition rnd
     = mockAnalysis (d\<lparr>balanceScore := Some 50\<rparr>) opts stk vals intuition rnd"
    unfolding mockAnalysis_def eff rest ..
next
  have eff: "js_or_default (timeHorizon (d\<lparr>timeHorizon := Some 0\<rparr>)) 50
      = js_or_default (timeHorizon (d\<lparr>timeHorizon := Some 50\<rparr>)) 50"
    by (simp add: js_or_default_def)
  have rest: "balanceScore (d\<lparr>timeHorizon := Some 0\<rparr>) = balanceScore (d\<lparr>timeHorizon := Some 50\<rparr>)"
    "question (d\<lparr>timeHorizon := Some 0\<rparr>) = question (d\<lparr>timeHorizon := Some 50\<rparr>)"
    by simp_all
  show "mockAnalysis (d\<lparr>timeHorizon := Some 0\<rparr>) opts stk vals intuition rnd
     = mockAnalysis (d\<lparr>timeHorizon := Some 50\<rparr>) opts stk vals intuition rnd"
    unfolding mockAnalysis_def eff rest ..
qed

end
